theory Spec2Isabelle
  imports Main "HOL-Library.Sublist" "HOL-Library.Stream"
begin

section \<open>Python values shared by the models\<close>

text \<open>
  Python strings are modelled as \<open>string\<close>, Python's unbounded integers as \<open>int\<close>.
  A value held in a dictionary or in an attribute of a pydantic model is a \<open>pyval\<close>;
  \<open>PyObj\<close> stands for every object the models never look into (floats, datetimes,
  nested dictionaries), so such values are only stored and copied.
\<close>

datatype 'o pyval =
    PyNone
  | PyBool bool
  | PyInt int
  | PyStr string
  | PyList "'o pyval list"
  | PyObj 'o

text \<open>A dictionary with string keys, and the attributes of an object alike.\<close>

type_synonym 'o pydict = "string \<rightharpoonup> 'o pyval"

text \<open>\<^verbatim>\<open>d.get(key)\<close> and \<^verbatim>\<open>getattr(obj, key, None)\<close>: a missing key reads as \<open>None\<close>.\<close>

definition py_get :: "'o pydict \<Rightarrow> string \<Rightarrow> 'o pyval" where
  "py_get d key = (case d key of None \<Rightarrow> PyNone | Some v \<Rightarrow> v)"

text \<open>\<^verbatim>\<open>s.startswith(p)\<close>.\<close>

definition startswith :: "string \<Rightarrow> string \<Rightarrow> bool" where
  "startswith s p = prefix p s"

text \<open>The exceptions the modelled code can raise, as values.\<close>

datatype py_error =
    KeyError string
  | IndexError
  | ValueError string
  | ValidationError string
  | OtherError string

section \<open>litellm/llms/fireworks\_ai/chat/transformation.py: the request\<close>

text \<open>
  \<^verbatim>\<open>transform_request\<close>, lines 249-250: the model name is prefixed unless it already
  names an account.
\<close>

definition fireworks_model_name :: "string \<Rightarrow> string" where
  "fireworks_model_name model =
     (if \<not> startswith model ''accounts/'' then ''accounts/fireworks/models/'' @ model
      else model)"

text \<open>
  \<^verbatim>\<open>FireworksAIConfig.transform_request\<close>. The three calls it makes after the
  normalization are arguments of the model, in the order of the source:
  \<open>messages_helper\<close> is \<^verbatim>\<open>self._transform_messages_helper\<close>, \<open>transform_tools\<close> is
  \<^verbatim>\<open>self._transform_tools\<close>, and \<open>super_transform_request\<close> is
  \<^verbatim>\<open>OpenAIGPTConfig.transform_request\<close>, which is not part of the files at hand.
  Each may raise, and an exception of any of them ends the call.
\<close>

definition transform_request ::
  "('m \<Rightarrow> string \<Rightarrow> 'o pydict \<Rightarrow> py_error + 'm) \<Rightarrow>
   ('o pyval \<Rightarrow> py_error + 'o pyval) \<Rightarrow>
   (string \<Rightarrow> 'm \<Rightarrow> 'o pydict \<Rightarrow> 'o pydict \<Rightarrow> 'h \<Rightarrow> py_error + 'r) \<Rightarrow>
   string \<Rightarrow> 'm \<Rightarrow> 'o pydict \<Rightarrow> 'o pydict \<Rightarrow> 'h \<Rightarrow> py_error + 'r" where
  "transform_request messages_helper transform_tools super_transform_request
       model messages optional_params litellm_params headers =
     (let model1 = fireworks_model_name model in
      case messages_helper messages model1 litellm_params of
        Inl e \<Rightarrow> Inl e
      | Inr messages1 \<Rightarrow>
          (case optional_params ''tools'' of
             None \<Rightarrow>
               super_transform_request model1 messages1 optional_params litellm_params headers
           | Some PyNone \<Rightarrow>
               super_transform_request model1 messages1 optional_params litellm_params headers
           | Some tools \<Rightarrow>
               (case transform_tools tools of
                  Inl e \<Rightarrow> Inl e
                | Inr tools1 \<Rightarrow>
                    super_transform_request model1 messages1
                      (optional_params(''tools'' \<mapsto> tools1)) litellm_params headers)))"

section \<open>litellm/types/router.py: routing strategies\<close>

text \<open>
  \<^verbatim>\<open>RouterConfig.routing_strategy\<close> is a \<^verbatim>\<open>Literal\<close> of four strings (lines 65-70);
  pydantic admits exactly these.
\<close>

definition RouterConfig_routing_strategy :: "string list" where
  "RouterConfig_routing_strategy =
     [''simple-shuffle'', ''least-busy'', ''usage-based-routing'', ''latency-based-routing'']"

text \<open>\<^verbatim>\<open>class RoutingStrategy(enum.Enum)\<close>, lines 704-710, and the value of each member.\<close>

datatype RoutingStrategy =
    LEAST_BUSY
  | LATENCY_BASED
  | COST_BASED
  | USAGE_BASED_ROUTING_V2
  | USAGE_BASED_ROUTING
  | PROVIDER_BUDGET_LIMITING

fun RoutingStrategy_value :: "RoutingStrategy \<Rightarrow> string" where
  "RoutingStrategy_value LEAST_BUSY = ''least-busy''"
| "RoutingStrategy_value LATENCY_BASED = ''latency-based-routing''"
| "RoutingStrategy_value COST_BASED = ''cost-based-routing''"
| "RoutingStrategy_value USAGE_BASED_ROUTING_V2 = ''usage-based-routing-v2''"
| "RoutingStrategy_value USAGE_BASED_ROUTING = ''usage-based-routing''"
| "RoutingStrategy_value PROVIDER_BUDGET_LIMITING = ''provider-budget-routing''"

definition RoutingStrategy_members :: "RoutingStrategy list" where
  "RoutingStrategy_members =
     [LEAST_BUSY, LATENCY_BASED, COST_BASED, USAGE_BASED_ROUTING_V2, USAGE_BASED_ROUTING,
      PROVIDER_BUDGET_LIMITING]"

text \<open>
  \<^verbatim>\<open>RoutingStrategy(v)\<close>, the lookup of a member by its value; Python raises
  \<^verbatim>\<open>ValueError\<close> where this is \<open>None\<close>.
\<close>

definition RoutingStrategy_of_value :: "string \<Rightarrow> RoutingStrategy option" where
  "RoutingStrategy_of_value v = find (\<lambda>m. RoutingStrategy_value m = v) RoutingStrategy_members"

text \<open>
  The strategies as the specification names them (section 4.4), each with the
  configuration string that selects it. This definition follows the specification, not
  the source: the names are the headings of the list in 4.4.
\<close>

datatype spec_strategy =
    Simple_shuffle
  | Least_busy
  | Latency_based
  | Usage_based
  | Usage_based_v2
  | Cost_based
  | Provider_budget_routing

fun spec_strategy_value :: "spec_strategy \<Rightarrow> string" where
  "spec_strategy_value Simple_shuffle = ''simple-shuffle''"
| "spec_strategy_value Least_busy = ''least-busy''"
| "spec_strategy_value Latency_based = ''latency-based-routing''"
| "spec_strategy_value Usage_based = ''usage-based-routing''"
| "spec_strategy_value Usage_based_v2 = ''usage-based-routing-v2''"
| "spec_strategy_value Cost_based = ''cost-based-routing''"
| "spec_strategy_value Provider_budget_routing = ''provider-budget-routing''"

text \<open>A string is selectable when the literal lists it or the enum has a member for it.\<close>

definition in_RouterConfig_literal :: "string \<Rightarrow> bool" where
  "in_RouterConfig_literal v = (v \<in> set RouterConfig_routing_strategy)"

definition in_RoutingStrategy_enum :: "string \<Rightarrow> bool" where
  "in_RoutingStrategy_enum v = (RoutingStrategy_of_value v \<noteq> None)"

section \<open>litellm/types/router.py: cache keys of the usage counters\<close>

text \<open>\<^verbatim>\<open>class RouterCacheEnum(enum.Enum)\<close>, lines 713-717: the value of a member is a template.\<close>

datatype RouterCacheEnum = TPM | RPM | TPD | RPD

fun RouterCacheEnum_value :: "RouterCacheEnum \<Rightarrow> string" where
  "RouterCacheEnum_value TPM = ''global_router:{id}:{model}:tpm:{current_minute}''"
| "RouterCacheEnum_value RPM = ''global_router:{id}:{model}:rpm:{current_minute}''"
| "RouterCacheEnum_value TPD = ''global_router:{id}:{model}:tpd:{current_day}''"
| "RouterCacheEnum_value RPD = ''global_router:{id}:{model}:rpd:{current_day}''"

text \<open>
  A key is made from a template by Python's \<^verbatim>\<open>template.format(id=..., model=..., ...)\<close>.
  \<open>str_format\<close> models \<^verbatim>\<open>str.format\<close> with keyword arguments that are already
  strings: text is copied, \<^verbatim>\<open>{{\<close> and \<^verbatim>\<open>}}\<close> are the escaped braces, and
  \<^verbatim>\<open>{name}\<close> is replaced by the argument of that name (\<^verbatim>\<open>KeyError\<close> when there
  is none; an empty name asks for a positional argument, of which there are none).
  Conversions, format specifications and attribute or index lookups inside a field are
  outside the model, which says so with an error; the templates use none of them.
  The second argument is the name of the field being read, when inside braces.
\<close>

fun str_format_from ::
  "(string \<rightharpoonup> string) \<Rightarrow> string option \<Rightarrow> string \<Rightarrow> py_error + string" where
  "str_format_from kw None [] = Inr []"
| "str_format_from kw (Some f) [] = Inl (ValueError ''expected } before end of string'')"
| "str_format_from kw None (c # cs) =
     (if c = CHR ''{'' then
        (case cs of
           [] \<Rightarrow> Inl (ValueError ''Single { encountered in format string'')
         | d # ds \<Rightarrow>
             if d = CHR ''{'' then map_sum id ((#) CHR ''{'') (str_format_from kw None ds)
             else str_format_from kw (Some []) cs)
      else if c = CHR ''}'' then
        (case cs of
           [] \<Rightarrow> Inl (ValueError ''Single } encountered in format string'')
         | d # ds \<Rightarrow>
             if d = CHR ''}'' then map_sum id ((#) CHR ''}'') (str_format_from kw None ds)
             else Inl (ValueError ''Single } encountered in format string''))
      else map_sum id ((#) c) (str_format_from kw None cs))"
| "str_format_from kw (Some f) (c # cs) =
     (if c = CHR ''}'' then
        (if f = [] then Inl IndexError
         else case kw f of
           None \<Rightarrow> Inl (KeyError f)
         | Some v \<Rightarrow> map_sum id ((@) v) (str_format_from kw None cs))
      else if c \<in> set ''!:.[{'' then Inl (OtherError ''replacement field outside the model'')
      else str_format_from kw (Some (f @ [c])) cs)"

definition str_format :: "string \<Rightarrow> (string \<rightharpoonup> string) \<Rightarrow> py_error + string" where
  "str_format template kw = str_format_from kw None template"

text \<open>
  The scheme as the specification words it (section 6):
  \<^verbatim>\<open>{scope}:{router_id}:{model}:{window_kind}:{window_bucket}\<close>. This definition follows
  the specification, to be compared with the templates of the source.
\<close>

definition usage_key_scheme ::
  "string \<Rightarrow> string \<Rightarrow> string \<Rightarrow> string \<Rightarrow> string \<Rightarrow> string" where
  "usage_key_scheme scope router_id model window_kind window_bucket =
     scope @ '':'' @ router_id @ '':'' @ model @ '':'' @ window_kind @ '':'' @ window_bucket"

section \<open>litellm/proxy/common\_utils/debug\_utils.py: active tasks\<close>

text \<open>
  What \<^verbatim>\<open>get_active_tasks_stats\<close> reads of a task: whether it is done, and of its
  coroutine the attributes \<^verbatim>\<open>__qualname__\<close> and \<^verbatim>\<open>__name__\<close> (\<open>None\<close> when the
  attribute is missing or is \<^verbatim>\<open>None\<close>) and its \<^verbatim>\<open>repr\<close>.
\<close>

record coroutine =
  coro_qualname :: "string option"
  coro_name :: "string option"
  coro_repr :: string

record task =
  task_done :: bool
  task_coro :: coroutine

record tasks_stats =
  total_active_tasks :: nat
  by_name :: "(string \<times> nat) list"

definition MAX_TASKS_TO_CHECK :: nat where
  "MAX_TASKS_TO_CHECK = 5000"

text \<open>Python's \<^verbatim>\<open>x or y\<close> on optional strings: \<open>None\<close> and the empty string are false.\<close>

definition py_or :: "string option \<Rightarrow> string option \<Rightarrow> string option" where
  "py_or x y = (case x of None \<Rightarrow> y | Some s \<Rightarrow> if s = [] then y else Some s)"

text \<open>
  Lines 38-42, \<^verbatim>\<open>(qualname or name) or repr(coro)\<close>: when the first two operands are
  both false (\<open>None\<close> or empty), the result is the last operand, \<^verbatim>\<open>repr(coro)\<close>,
  whatever it is.
\<close>

definition coroutine_display_name :: "coroutine \<Rightarrow> string" where
  "coroutine_display_name coro =
     (case py_or (coro_qualname coro) (coro_name coro) of
        None \<Rightarrow> coro_repr coro
      | Some s \<Rightarrow> if s = [] then coro_repr coro else s)"

text \<open>
  \<^verbatim>\<open>counter[name] += 1\<close> on a \<^verbatim>\<open>Counter\<close>, kept as an association list in the order of
  insertion (the order of the dictionary that is returned): a missing name counts from 0.
\<close>

fun counter_incr :: "(string \<times> nat) list \<Rightarrow> string \<Rightarrow> (string \<times> nat) list" where
  "counter_incr [] k = [(k, 1)]"
| "counter_incr ((k', n) # kvs) k =
     (if k' = k then (k', n + 1) # kvs else (k', n) # counter_incr kvs k)"

text \<open>The loop of lines 32-43 over \<^verbatim>\<open>enumerate(active_tasks)\<close>, from index \<open>idx\<close> on.\<close>

fun count_tasks :: "nat \<Rightarrow> task list \<Rightarrow> (string \<times> nat) list \<Rightarrow> (string \<times> nat) list" where
  "count_tasks idx [] counter = counter"
| "count_tasks idx (t # ts) counter =
     (if idx \<ge> MAX_TASKS_TO_CHECK then counter
      else count_tasks (idx + 1) ts
             (counter_incr counter (coroutine_display_name (task_coro t))))"

text \<open>
  \<^verbatim>\<open>get_active_tasks_stats\<close>. \<^verbatim>\<open>asyncio.all_tasks()\<close> is a set; the argument is the
  list of its elements in the order the comprehension of line 28 iterates them.
\<close>

definition get_active_tasks_stats :: "task list \<Rightarrow> tasks_stats" where
  "get_active_tasks_stats all_tasks =
     (let active_tasks = filter (\<lambda>t. \<not> task_done t) all_tasks;
          counter = count_tasks 0 active_tasks []
      in \<lparr>total_active_tasks = length active_tasks, by_name = counter\<rparr>)"

section \<open>litellm/types/router.py: retry and allowed-fails policies\<close>

text \<open>
  \<^verbatim>\<open>AllowedFailsPolicy\<close> (lines 504-518) and \<^verbatim>\<open>RetryPolicy\<close> (lines 521-534) are
  pydantic models whose fields are all \<^verbatim>\<open>Optional[int] = None\<close>. A class is modelled
  by its declared fields, each with its default; an instance by the same list with the
  values of the fields.
\<close>

type_synonym policy_fields = "(string \<times> int option) list"

definition AllowedFailsPolicy_fields :: policy_fields where
  "AllowedFailsPolicy_fields =
     [(''BadRequestErrorAllowedFails'', None),
      (''AuthenticationErrorAllowedFails'', None),
      (''TimeoutErrorAllowedFails'', None),
      (''RateLimitErrorAllowedFails'', None),
      (''ContentPolicyViolationErrorAllowedFails'', None),
      (''InternalServerErrorAllowedFails'', None)]"

definition RetryPolicy_fields :: policy_fields where
  "RetryPolicy_fields =
     [(''BadRequestErrorRetries'', None),
      (''AuthenticationErrorRetries'', None),
      (''TimeoutErrorRetries'', None),
      (''RateLimitErrorRetries'', None),
      (''ContentPolicyViolationErrorRetries'', None),
      (''InternalServerErrorRetries'', None)]"

text \<open>
  The constructor \<^verbatim>\<open>RetryPolicy(**kwargs)\<close>: a declared field takes the keyword argument
  of its name, or its default; pydantic ignores keywords that name no field (neither
  class sets \<^verbatim>\<open>extra\<close>).
\<close>

definition policy_init :: "policy_fields \<Rightarrow> (string \<rightharpoonup> int option) \<Rightarrow> policy_fields" where
  "policy_init decls kwargs =
     map (\<lambda>(name, dflt). (name, case kwargs name of None \<Rightarrow> dflt | Some v \<Rightarrow> v)) decls"

text \<open>Reading an attribute: \<open>None\<close> is Python's \<^verbatim>\<open>AttributeError\<close>.\<close>

definition policy_getattr :: "policy_fields \<Rightarrow> string \<Rightarrow> int option option" where
  "policy_getattr p name = map_of p name"

text \<open>
  The error kinds of the taxonomy, as the specification names them (section 7). This
  datatype follows the specification; the fields above are the source's.
\<close>

datatype error_kind =
    BadRequest
  | Authentication
  | Timeout
  | RateLimit
  | ContentPolicyViolation
  | InternalServerError
  | Other

fun error_kind_name :: "error_kind \<Rightarrow> string" where
  "error_kind_name BadRequest = ''BadRequest''"
| "error_kind_name Authentication = ''Authentication''"
| "error_kind_name Timeout = ''Timeout''"
| "error_kind_name RateLimit = ''RateLimit''"
| "error_kind_name ContentPolicyViolation = ''ContentPolicyViolation''"
| "error_kind_name InternalServerError = ''InternalServerError''"
| "error_kind_name Other = ''Other''"

text \<open>
  The fields of a policy class that are for an error kind: those whose name starts with
  the name of the kind (the classes name a field after the exception type, as in
  \<^verbatim>\<open>RateLimitErrorRetries\<close>). \<open>policy_field\<close> is the first of them, if there is one.
\<close>

definition fields_of_kind :: "policy_fields \<Rightarrow> error_kind \<Rightarrow> policy_fields" where
  "fields_of_kind decls k =
     filter (\<lambda>(name, dflt). startswith name (error_kind_name k)) decls"

definition policy_field :: "policy_fields \<Rightarrow> error_kind \<Rightarrow> string option" where
  "policy_field decls k =
     (case fields_of_kind decls k of [] \<Rightarrow> None | (name, dflt) # _ \<Rightarrow> Some name)"

text \<open>
  The setting of a kind in an instance \<open>p\<close> of the class \<open>decls\<close>: \<open>None\<close> when the
  class has no field for the kind, \<open>Some None\<close> when the field is unset.
\<close>

definition kind_setting ::
  "policy_fields \<Rightarrow> policy_fields \<Rightarrow> error_kind \<Rightarrow> int option option" where
  "kind_setting decls p k =
     (case policy_field decls k of None \<Rightarrow> None | Some f \<Rightarrow> policy_getattr p f)"

text \<open>The keyword arguments that configure one kind and nothing else.\<close>

definition kind_kwargs ::
  "policy_fields \<Rightarrow> error_kind \<Rightarrow> int option \<Rightarrow> (string \<rightharpoonup> int option)" where
  "kind_kwargs decls k v =
     (case policy_field decls k of None \<Rightarrow> Map.empty | Some f \<Rightarrow> [f \<mapsto> v])"

section \<open>litellm/types/router.py: the error of an empty candidate set\<close>

text \<open>\<^verbatim>\<open>class RouterErrors(enum.Enum)\<close>, lines 489-501.\<close>

datatype RouterErrors =
    user_defined_ratelimit_error
  | no_deployments_available
  | no_deployments_with_tag_routing
  | no_deployments_with_provider_budget_routing

fun RouterErrors_value :: "RouterErrors \<Rightarrow> string" where
  "RouterErrors_value user_defined_ratelimit_error = ''Deployment over user-defined ratelimit.''"
| "RouterErrors_value no_deployments_available = ''No deployments available for selected model''"
| "RouterErrors_value no_deployments_with_tag_routing =
     ''Not allowed to access model due to tags configuration''"
| "RouterErrors_value no_deployments_with_provider_budget_routing =
     ''No deployments available - crossed budget''"

text \<open>
  \<^verbatim>\<open>class RouterRateLimitError(ValueError)\<close>, lines 676-689: the four attributes, and
  the message given to \<^verbatim>\<open>ValueError\<close>. The cooldown time is a float and the cooldown
  list holds arbitrary objects; their types are parameters.
\<close>

record ('t, 'c) RouterRateLimitError =
  err_model :: string
  err_cooldown_time :: 't
  err_enable_pre_call_checks :: bool
  err_cooldown_list :: "'c list"
  err_message :: string

text \<open>\<^verbatim>\<open>str(b)\<close> of a bool, as an f-string renders it.\<close>

definition str_bool :: "bool \<Rightarrow> string" where
  "str_bool b = (if b then ''True'' else ''False'')"

text \<open>
  \<^verbatim>\<open>RouterRateLimitError.__init__\<close>. The f-string renders the float and the list with
  Python's \<^verbatim>\<open>str\<close>; the two renderings are the arguments \<open>str_time\<close> and \<open>str_list\<close>.
\<close>

definition RouterRateLimitError_init ::
  "('t \<Rightarrow> string) \<Rightarrow> ('c list \<Rightarrow> string) \<Rightarrow>
   string \<Rightarrow> 't \<Rightarrow> bool \<Rightarrow> 'c list \<Rightarrow> ('t, 'c) RouterRateLimitError" where
  "RouterRateLimitError_init str_time str_list model cooldown_time enable_pre_call_checks
       cooldown_list =
     \<lparr>err_model = model,
      err_cooldown_time = cooldown_time,
      err_enable_pre_call_checks = enable_pre_call_checks,
      err_cooldown_list = cooldown_list,
      err_message =
        RouterErrors_value no_deployments_available @ '', Try again in '' @
        str_time cooldown_time @ '' seconds. Passed model='' @ model @
        ''. pre-call-checks='' @ str_bool enable_pre_call_checks @
        '', cooldown_list='' @ str_list cooldown_list\<rparr>"

text \<open>
  Modelled from the spec: the entry of the Routing Strategy Engine (section 4.4), whose
  code, the router, is not among the source files. The specification: "Input: the
  candidate set surviving filtering for a model group; must be non-empty or the call
  fails with NoDeploymentsAvailableError (carrying the excluded set and reasons, for
  diagnostics)." The error raised is the source's \<^verbatim>\<open>RouterRateLimitError\<close>;
  \<open>strategy\<close> is the configured selection among the candidates.
\<close>

definition select_deployment ::
  "('t \<Rightarrow> string) \<Rightarrow> ('c list \<Rightarrow> string) \<Rightarrow> ('d list \<Rightarrow> 'd) \<Rightarrow>
   string \<Rightarrow> 'd list \<Rightarrow> 't \<Rightarrow> bool \<Rightarrow> 'c list \<Rightarrow> ('t, 'c) RouterRateLimitError + 'd" where
  "select_deployment str_time str_list strategy model candidates cooldown_time
       enable_pre_call_checks cooldown_list =
     (if candidates = [] then
        Inl (RouterRateLimitError_init str_time str_list model cooldown_time
               enable_pre_call_checks cooldown_list)
      else Inr (strategy candidates))"

section \<open>litellm/llms/fireworks\_ai/chat/transformation.py: the response\<close>

text \<open>
  What \<^verbatim>\<open>transform_response\<close> reads of the \<^verbatim>\<open>httpx.Response\<close>: its text, its status
  code and its headers. Parsing the body is the method \<^verbatim>\<open>raw_response.json()\<close> of
  the library, an argument \<open>json\<close> of the model: \<open>Inl msg\<close> when it raises an exception
  whose \<^verbatim>\<open>str\<close> is \<open>msg\<close>, \<open>Inr\<close> of the parsed value otherwise.
\<close>

record raw_response =
  resp_text :: string
  resp_status_code :: int
  resp_headers :: "(string \<times> string) list"

text \<open>
  \<^verbatim>\<open>FireworksAIException(message=..., status_code=..., headers=...)\<close>. The headers are
  \<^verbatim>\<open>getattr(raw_response, "headers", None)\<close>.
\<close>

record FireworksAIException =
  exc_message :: string
  exc_status_code :: int
  exc_headers :: "(string \<times> string) list option"

datatype transform_error =
    Raise_FireworksAIException FireworksAIException
  | Raise_other py_error

fun is_FireworksAIException :: "transform_error \<Rightarrow> bool" where
  "is_FireworksAIException (Raise_FireworksAIException x) = True"
| "is_FireworksAIException (Raise_other e) = False"

text \<open>
  The parts of a \<^verbatim>\<open>ModelResponse\<close> that the function touches: the model name, the
  message of each choice (its content and its tool calls) and the hidden parameters.
\<close>

record fw_function =
  fn_name :: "string option"
  fn_arguments :: string

record tool_call =
  tc_function :: fw_function
  tc_id :: string
  tc_type :: string

record message =
  msg_content :: "string option"
  msg_tool_calls :: "tool_call list option"

record choice =
  choice_message :: message

record ModelResponse =
  mr_model :: "string option"
  mr_choices :: "choice list"
  mr_hidden_params :: "(string \<times> (string \<times> string) list) list"

text \<open>
  A tool of the request, as far as line 283 reads it: \<^verbatim>\<open>tool["function"]["name"]\<close>,
  \<open>None\<close> when the lookup raises.
\<close>

record tool_param =
  tool_function_name :: "string option"

text \<open>
  \<^verbatim>\<open>_handle_message_content_with_tool_calls\<close>, lines 265-294. \<open>parse_function\<close> is
  \<^verbatim>\<open>Function(**json.loads(message.content))\<close>, \<open>None\<close> when it raises;
  \<open>RESPONSE_FORMAT_TOOL_NAME\<close> is the constant of \<^verbatim>\<open>litellm.constants\<close>. Every
  exception inside the \<^verbatim>\<open>try\<close> leaves the message as it was. The identifier of a new
  tool call is \<^verbatim>\<open>str(uuid.uuid4())\<close>: the next element of the stream \<open>uuids\<close> of the
  strings that \<^verbatim>\<open>uuid4\<close> produces, in order.
\<close>

definition handle_message_content_with_tool_calls ::
  "(string \<Rightarrow> fw_function option) \<Rightarrow> string \<Rightarrow> message \<Rightarrow> tool_param list option \<Rightarrow>
   string stream \<Rightarrow> message \<times> string stream" where
  "handle_message_content_with_tool_calls parse_function RESPONSE_FORMAT_TOOL_NAME msg
       tool_calls uuids =
     (case (tool_calls, msg_content msg, msg_tool_calls msg) of
        (Some tools, Some content, None) \<Rightarrow>
          (case parse_function content of
             None \<Rightarrow> (msg, uuids)
           | Some fn \<Rightarrow>
               if fn_name fn \<noteq> Some RESPONSE_FORMAT_TOOL_NAME then
                 (case those (map tool_function_name tools) of
                    None \<Rightarrow> (msg, uuids)
                  | Some names \<Rightarrow>
                      if (case fn_name fn of None \<Rightarrow> False | Some n \<Rightarrow> n \<in> set names) then
                        (msg\<lparr>msg_tool_calls :=
                               Some [\<lparr>tc_function = fn, tc_id = shd uuids,
                                      tc_type = ''function''\<rparr>],
                             msg_content := None\<rparr>,
                         stl uuids)
                      else (msg, uuids))
               else (msg, uuids))
      | _ \<Rightarrow> (msg, uuids))"

text \<open>The loop of lines 341-347 over \<^verbatim>\<open>response.choices\<close>.\<close>

fun handle_choices ::
  "(string \<Rightarrow> fw_function option) \<Rightarrow> string \<Rightarrow> choice list \<Rightarrow> tool_param list option \<Rightarrow>
   string stream \<Rightarrow> choice list \<times> string stream" where
  "handle_choices parse_function rftn [] tools uuids = ([], uuids)"
| "handle_choices parse_function rftn (c # cs) tools uuids =
     (let (m, uuids1) =
            handle_message_content_with_tool_calls parse_function rftn (choice_message c)
              tools uuids;
          (cs1, uuids2) = handle_choices parse_function rftn cs tools uuids1
      in (c\<lparr>choice_message := m\<rparr> # cs1, uuids2))"

text \<open>
  \<^verbatim>\<open>FireworksAIConfig.transform_response\<close>, lines 296-351. The call of the logging
  object (lines 311-316) reports to an external collaborator and is left out. Arguments of
  the model for code outside the files at hand: \<open>json\<close> (see above),
  \<open>get_response_headers\<close>, and \<open>ModelResponse_init\<close> for
  \<^verbatim>\<open>ModelResponse(**completion_response)\<close>, which may raise. \<open>tools\<close> is
  \<^verbatim>\<open>optional_params.get("tools", None)\<close>. The result is the response and the rest of
  the stream of uuids.
\<close>

definition transform_response ::
  "(raw_response \<Rightarrow> string + 'j) \<Rightarrow>
   ((string \<times> string) list \<Rightarrow> (string \<times> string) list) \<Rightarrow>
   ('j \<Rightarrow> py_error + ModelResponse) \<Rightarrow>
   (string \<Rightarrow> fw_function option) \<Rightarrow> string \<Rightarrow>
   raw_response \<Rightarrow> tool_param list option \<Rightarrow> string stream \<Rightarrow>
   transform_error + ModelResponse \<times> string stream" where
  "transform_response json get_response_headers ModelResponse_init parse_function
       RESPONSE_FORMAT_TOOL_NAME raw_response tools uuids =
     (case json raw_response of
        Inl e \<Rightarrow>
          Inl (Raise_FireworksAIException
                \<lparr>exc_message =
                   ''Unable to get json response - '' @ e @ '', Original Response: '' @
                   resp_text raw_response,
                 exc_status_code = resp_status_code raw_response,
                 exc_headers = Some (resp_headers raw_response)\<rparr>)
      | Inr completion_response \<Rightarrow>
          (let additional_headers = get_response_headers (resp_headers raw_response) in
           case ModelResponse_init completion_response of
             Inl err \<Rightarrow> Inl (Raise_other err)
           | Inr response \<Rightarrow>
               (let response1 =
                      response\<lparr>mr_model :=
                                 map_option ((@) ''fireworks_ai/'') (mr_model response)\<rparr>;
                    (choices1, uuids1) =
                      handle_choices parse_function RESPONSE_FORMAT_TOOL_NAME
                        (mr_choices response1) tools uuids
                in Inr (response1\<lparr>mr_choices := choices1,
                                   mr_hidden_params :=
                                     [(''additional_headers'', additional_headers)]\<rparr>,
                        uuids1))))"

section \<open>pydantic models\<close>

text \<open>
  \<^verbatim>\<open>str(n)\<close> of an integer: its decimal digits, with a minus sign when negative.
\<close>

fun str_nat :: "nat \<Rightarrow> string" where
  "str_nat n =
     (if n < 10 then [''0123456789'' ! n]
      else str_nat (n div 10) @ [''0123456789'' ! (n mod 10)])"

declare str_nat.simps [simp del]

definition str_int :: "int \<Rightarrow> string" where
  "str_int i = (if i < 0 then CHR ''-'' # str_nat (nat (- i)) else str_nat (nat i))"

text \<open>
  The declared fields of a pydantic model: the name of each, and its default when it has
  one (a field with no default is required).
\<close>

type_synonym 'o field_decls = "(string \<times> 'o pyval option) list"

text \<open>
  \<^verbatim>\<open>BaseModel.__init__(**kwargs)\<close> is library code; this is what the models below use
  of it. \<open>validate name v\<close> is pydantic's validation of the value \<open>v\<close> for the declared
  field \<open>name\<close>: the value stored, or \<open>None\<close> when the value is refused. A declared
  field that is given is validated; one that is not given takes its default, and is an
  error when it has none. The first field at fault is reported. Keywords that name no
  declared field are kept as they are under \<^verbatim>\<open>extra="allow"\<close> and dropped otherwise.
\<close>

definition field_invalid ::
  "(string \<Rightarrow> 'o pyval \<Rightarrow> 'o pyval option) \<Rightarrow> 'o pydict \<Rightarrow> string \<times> 'o pyval option \<Rightarrow>
   bool" where
  "field_invalid validate kwargs decl =
     (case decl of (name, dflt) \<Rightarrow>
        (case kwargs name of None \<Rightarrow> dflt = None | Some v \<Rightarrow> validate name v = None))"

definition pydantic_init ::
  "bool \<Rightarrow> 'o field_decls \<Rightarrow> (string \<Rightarrow> 'o pyval \<Rightarrow> 'o pyval option) \<Rightarrow> 'o pydict \<Rightarrow>
   py_error + 'o pydict" where
  "pydantic_init extra_allow decls validate kwargs =
     (case find (field_invalid validate kwargs) decls of
        Some (name, dflt) \<Rightarrow> Inl (ValidationError name)
      | None \<Rightarrow>
          Inr (\<lambda>name.
                 case map_of decls name of
                   None \<Rightarrow> if extra_allow then kwargs name else None
                 | Some dflt \<Rightarrow>
                     (case kwargs name of None \<Rightarrow> dflt | Some v \<Rightarrow> validate name v)))"

section \<open>litellm/types/router.py: ModelInfo\<close>

text \<open>
  \<^verbatim>\<open>class ModelInfo(BaseModel)\<close>, lines 95-127, with \<^verbatim>\<open>extra="allow"\<close>. The field
  \<^verbatim>\<open>id\<close>, a string in every instance, is kept apart; \<open>mi_attrs\<close> holds the other
  declared fields and the extra attributes.
\<close>

definition ModelInfo_fields :: "'o field_decls" where
  "ModelInfo_fields =
     [(''db_model'', Some (PyBool False)),
      (''updated_at'', Some PyNone),
      (''updated_by'', Some PyNone),
      (''created_at'', Some PyNone),
      (''created_by'', Some PyNone),
      (''base_model'', Some PyNone),
      (''tier'', Some PyNone),
      (''team_id'', Some PyNone),
      (''team_public_model_name'', Some PyNone)]"

record 'o ModelInfo =
  mi_id :: string
  mi_attrs :: "'o pydict"

text \<open>
  pydantic's validation of \<^verbatim>\<open>id: Optional[str]\<close> for a value that is not \<open>None\<close>: a
  string is stored as it is; any other value is stored only if the validation turns it
  into a string.
\<close>

definition validate_id ::
  "(string \<Rightarrow> 'o pyval \<Rightarrow> 'o pyval option) \<Rightarrow> 'o pyval \<Rightarrow> string option" where
  "validate_id validate v =
     (case v of
        PyStr s \<Rightarrow> Some s
      | _ \<Rightarrow> (case validate ''id'' v of Some (PyStr s) \<Rightarrow> Some s | _ \<Rightarrow> None))"

text \<open>
  \<^verbatim>\<open>ModelInfo.__init__(self, id=None, **params)\<close>, lines 120-125. \<^verbatim>\<open>uuid.uuid4()\<close>
  draws from the random source of the operating system: \<open>uuids\<close> is the stream of the
  strings \<^verbatim>\<open>str(uuid.uuid4())\<close> returns, call after call, and the result carries
  the rest of the stream. A bool is an \<^verbatim>\<open>int\<close> for \<^verbatim>\<open>isinstance\<close>. \<open>params\<close> has
  no key \<^verbatim>\<open>id\<close>: Python binds that keyword to the parameter.
\<close>

definition ModelInfo_init ::
  "(string \<Rightarrow> 'o pyval \<Rightarrow> 'o pyval option) \<Rightarrow> 'o pyval \<Rightarrow> 'o pydict \<Rightarrow> string stream \<Rightarrow>
   (py_error + 'o ModelInfo) \<times> string stream" where
  "ModelInfo_init validate id0 params uuids =
     (let (id1, uuids1) =
            (case id0 of
               PyNone \<Rightarrow> (PyStr (shd uuids), stl uuids)
             | PyBool b \<Rightarrow> (PyStr (str_bool b), uuids)
             | PyInt n \<Rightarrow> (PyStr (str_int n), uuids)
             | _ \<Rightarrow> (id0, uuids))
      in case validate_id validate id1 of
           None \<Rightarrow> (Inl (ValidationError ''id''), uuids1)
         | Some s \<Rightarrow>
             (case pydantic_init True ModelInfo_fields validate params of
                Inl e \<Rightarrow> (Inl e, uuids1)
              | Inr attrs \<Rightarrow> (Inr \<lparr>mi_id = s, mi_attrs = attrs\<rparr>, uuids1)))"


text \<open>
  \<^verbatim>\<open>setattr(model_info, key, value)\<close> for an attribute other than \<^verbatim>\<open>id\<close>; the model
  does not validate assignments.
\<close>

definition ModelInfo_setattr :: "'o ModelInfo \<Rightarrow> string \<Rightarrow> 'o pyval \<Rightarrow> 'o ModelInfo" where
  "ModelInfo_setattr mi key v = mi\<lparr>mi_attrs := (mi_attrs mi)(key \<mapsto> v)\<rparr>"

section \<open>litellm/types/router.py: Deployment\<close>

definition SPECIAL_MODEL_INFO_PARAMS :: "string list" where
  "SPECIAL_MODEL_INFO_PARAMS =
     [''input_cost_per_token'', ''output_cost_per_token'', ''input_cost_per_character'',
      ''output_cost_per_character'']"

text \<open>The argument \<^verbatim>\<open>model_info: Optional[Union[ModelInfo, dict]] = None\<close>.\<close>

datatype 'o model_info_arg =
    ModelInfo_absent
  | ModelInfo_dict "'o pydict"
  | ModelInfo_object "'o ModelInfo"

text \<open>
  The argument \<^verbatim>\<open>litellm_params\<close>. The signature declares a \<^verbatim>\<open>LiteLLM_Params\<close>
  object, given here by its attributes; pydantic also takes a dictionary for the field
  (the shape \<^verbatim>\<open>DeploymentTypedDict\<close> declares), which it turns into a
  \<^verbatim>\<open>LiteLLM_Params\<close> only in the final \<^verbatim>\<open>super().__init__\<close>.
\<close>

datatype 'o litellm_params_arg =
    LiteLLM_Params_object "'o pydict"
  | LiteLLM_Params_dict "'o pydict"

text \<open>
  \<^verbatim>\<open>getattr(litellm_params, key, None)\<close> of line 454, for the keys of
  \<^verbatim>\<open>SPECIAL_MODEL_INFO_PARAMS\<close>: the attribute of an object, \<open>None\<close> when it has none;
  a dictionary has no attribute of any of these names (its entries are not attributes),
  so the default \<open>None\<close> is the result.
\<close>

definition litellm_params_getattr :: "'o litellm_params_arg \<Rightarrow> string \<Rightarrow> 'o pyval" where
  "litellm_params_getattr litellm_params key =
     (case litellm_params of
        LiteLLM_Params_object attrs \<Rightarrow> py_get attrs key
      | LiteLLM_Params_dict d \<Rightarrow> PyNone)"

text \<open>
  \<^verbatim>\<open>class Deployment(BaseModel)\<close>, lines 430-463. \<open>dep_litellm_params\<close> holds the
  attributes of the \<^verbatim>\<open>LiteLLM_Params\<close> object, \<open>dep_params\<close> the extra keywords.
\<close>

record 'o Deployment =
  dep_model_name :: string
  dep_litellm_params :: "'o pydict"
  dep_model_info :: "'o ModelInfo"
  dep_params :: "'o pydict"

text \<open>
  Lines 444-447: no model info makes \<^verbatim>\<open>ModelInfo()\<close>, a dictionary makes
  \<^verbatim>\<open>ModelInfo(**model_info)\<close>, whose key \<^verbatim>\<open>id\<close>, if any, is the parameter
  \<^verbatim>\<open>id\<close>.
\<close>

definition resolve_model_info ::
  "(string \<Rightarrow> 'o pyval \<Rightarrow> 'o pyval option) \<Rightarrow> 'o model_info_arg \<Rightarrow> string stream \<Rightarrow>
   (py_error + 'o ModelInfo) \<times> string stream" where
  "resolve_model_info validate model_info uuids =
     (case model_info of
        ModelInfo_absent \<Rightarrow> ModelInfo_init validate PyNone Map.empty uuids
      | ModelInfo_dict d \<Rightarrow> ModelInfo_init validate (py_get d ''id'') (d(''id'' := None)) uuids
      | ModelInfo_object mi \<Rightarrow> (Inr mi, uuids))"

text \<open>The loop of lines 449-456 over \<^verbatim>\<open>SPECIAL_MODEL_INFO_PARAMS\<close>.\<close>

definition copy_special_params :: "'o litellm_params_arg \<Rightarrow> 'o ModelInfo \<Rightarrow> 'o ModelInfo" where
  "copy_special_params litellm_params model_info =
     fold (\<lambda>key mi.
             let field = litellm_params_getattr litellm_params key
             in if field \<noteq> PyNone then ModelInfo_setattr mi key field else mi)
       SPECIAL_MODEL_INFO_PARAMS model_info"

text \<open>
  \<^verbatim>\<open>Deployment.__init__\<close>. The model name is a string and the model info is a
  \<^verbatim>\<open>ModelInfo\<close> object by line 458; the final \<^verbatim>\<open>super().__init__\<close> accepts both,
  and a \<^verbatim>\<open>LiteLLM_Params\<close> object, as they are. For parameters given as a dictionary
  it validates the field: \<open>to_LiteLLM_Params\<close> is that validation, the attributes of
  the \<^verbatim>\<open>LiteLLM_Params\<close> that pydantic builds from the dictionary, or its error.
  (A \<^verbatim>\<open>ModelInfo\<close> object given by the caller is itself updated by the loop; the
  model returns the updated value.)
\<close>

definition Deployment_init ::
  "(string \<Rightarrow> 'o pyval \<Rightarrow> 'o pyval option) \<Rightarrow> ('o pydict \<Rightarrow> py_error + 'o pydict) \<Rightarrow>
   string \<Rightarrow> 'o litellm_params_arg \<Rightarrow> 'o model_info_arg \<Rightarrow> 'o pydict \<Rightarrow> string stream \<Rightarrow>
   (py_error + 'o Deployment) \<times> string stream" where
  "Deployment_init validate to_LiteLLM_Params model_name litellm_params model_info params
       uuids =
     (case resolve_model_info validate model_info uuids of
        (Inl e, uuids1) \<Rightarrow> (Inl e, uuids1)
      | (Inr mi, uuids1) \<Rightarrow>
          (let model_info1 = copy_special_params litellm_params mi in
           case litellm_params of
             LiteLLM_Params_object attrs \<Rightarrow>
               (Inr \<lparr>dep_model_name = model_name,
                     dep_litellm_params = attrs,
                     dep_model_info = model_info1,
                     dep_params = params\<rparr>,
                uuids1)
           | LiteLLM_Params_dict d \<Rightarrow>
               (case to_LiteLLM_Params d of
                  Inl e \<Rightarrow> (Inl e, uuids1)
                | Inr attrs \<Rightarrow>
                    (Inr \<lparr>dep_model_name = model_name,
                          dep_litellm_params = attrs,
                          dep_model_info = model_info1,
                          dep_params = params\<rparr>,
                     uuids1))))"

text \<open>The attribute of the model info as the caller gave it.\<close>

definition given_model_info_field :: "'o model_info_arg \<Rightarrow> string \<Rightarrow> 'o pyval option" where
  "given_model_info_field model_info key =
     (case model_info of
        ModelInfo_absent \<Rightarrow> None
      | ModelInfo_dict d \<Rightarrow> d key
      | ModelInfo_object mi \<Rightarrow> mi_attrs mi key)"

text \<open>Inputs for the worked examples: a validation that accepts every value.\<close>

definition accept_all :: "string \<Rightarrow> 'o pyval \<Rightarrow> 'o pyval option" where
  "accept_all name v = Some v"

text \<open>
  A stream of strings that never repeats, and the arguments of a deployment with one
  price on the parameters and another in the model info given as a dictionary
  (\<open>PyObj\<close> holds the text of a float).
\<close>

definition example_uuids :: "string stream" where
  "example_uuids = siterate ((#) CHR ''0'') ''9f1c2e6a-5b7d-4c3e-8a21-0d4f6b8c9e10''"

definition example_litellm_params :: "string pydict" where
  "example_litellm_params =
     [''model'' \<mapsto> PyStr ''azure/gpt-4'',
      ''input_cost_per_token'' \<mapsto> PyObj ''2e-06'',
      ''output_cost_per_token'' \<mapsto> PyNone]"

definition example_model_info :: "string model_info_arg" where
  "example_model_info =
     ModelInfo_dict [''id'' \<mapsto> PyStr ''dep-1'', ''output_cost_per_token'' \<mapsto> PyObj ''6e-06'']"

section \<open>litellm/types/router.py: ModelGroupInfo\<close>

text \<open>
  The annotations of \<^verbatim>\<open>class ModelGroupInfo(BaseModel)\<close>, lines 553-585, as types.
\<close>

datatype py_type =
    Ty_str
  | Ty_bool
  | Ty_int
  | Ty_float
  | Ty_Optional py_type
  | Ty_List py_type
  | Ty_Union "py_type list"
  | Ty_Literal "string list"
  | Ty_named string

text \<open>
  \<^verbatim>\<open>get_type_hints(self.__class__)\<close> for the fields the class declares, in their order.
  (It also lists the annotations inherited from \<^verbatim>\<open>BaseModel\<close>, all of them class
  variables and none of type \<^verbatim>\<open>bool\<close>, which the loop passes over.)
\<close>

definition ModelGroupInfo_type_hints :: "(string \<times> py_type) list" where
  "ModelGroupInfo_type_hints =
     [(''model_group'', Ty_str),
      (''providers'', Ty_List Ty_str),
      (''max_input_tokens'', Ty_Optional Ty_float),
      (''max_output_tokens'', Ty_Optional Ty_float),
      (''input_cost_per_token'', Ty_Optional Ty_float),
      (''output_cost_per_token'', Ty_Optional Ty_float),
      (''mode'',
         Ty_Optional (Ty_Union [Ty_str,
           Ty_Literal [''chat'', ''embedding'', ''completion'', ''image_generation'',
                       ''audio_transcription'', ''rerank'', ''moderations'']])),
      (''tpm'', Ty_Optional Ty_int),
      (''rpm'', Ty_Optional Ty_int),
      (''tpd'', Ty_Optional Ty_int),
      (''rpd'', Ty_Optional Ty_int),
      (''supports_parallel_function_calling'', Ty_bool),
      (''supports_vision'', Ty_bool),
      (''supports_web_search'', Ty_bool),
      (''supports_url_context'', Ty_bool),
      (''supports_reasoning'', Ty_bool),
      (''supports_function_calling'', Ty_bool),
      (''supported_openai_params'', Ty_Optional (Ty_List Ty_str)),
      (''configurable_clientside_auth_params'',
         Ty_Optional (Ty_List (Ty_Union [Ty_str,
           Ty_named ''ConfigurableClientsideParamsCustomAuth''])))]"

text \<open>
  The declared fields with their defaults; \<^verbatim>\<open>model_group\<close> and \<^verbatim>\<open>providers\<close> are
  required. The class does not set \<^verbatim>\<open>extra\<close>.
\<close>

definition ModelGroupInfo_fields :: "'o field_decls" where
  "ModelGroupInfo_fields =
     [(''model_group'', None),
      (''providers'', None),
      (''max_input_tokens'', Some PyNone),
      (''max_output_tokens'', Some PyNone),
      (''input_cost_per_token'', Some PyNone),
      (''output_cost_per_token'', Some PyNone),
      (''mode'', Some (PyStr ''chat'')),
      (''tpm'', Some PyNone),
      (''rpm'', Some PyNone),
      (''tpd'', Some PyNone),
      (''rpd'', Some PyNone),
      (''supports_parallel_function_calling'', Some (PyBool False)),
      (''supports_vision'', Some (PyBool False)),
      (''supports_web_search'', Some (PyBool False)),
      (''supports_url_context'', Some (PyBool False)),
      (''supports_reasoning'', Some (PyBool False)),
      (''supports_function_calling'', Some (PyBool False)),
      (''supported_openai_params'', Some (PyList [])),
      (''configurable_clientside_auth_params'', Some PyNone)]"

text \<open>
  pydantic's validation of a field of type \<^verbatim>\<open>bool\<close>: a bool is stored as it is, and
  \<open>lax\<close> is the library's decision for every other value (the bool it is read as, or a
  refusal), so that a stored flag is a bool. Every other field is validated by
  \<open>validate\<close>.
\<close>

definition pydantic_bool :: "('o pyval \<Rightarrow> bool option) \<Rightarrow> 'o pyval \<Rightarrow> bool option" where
  "pydantic_bool lax v = (case v of PyBool b \<Rightarrow> Some b | _ \<Rightarrow> lax v)"

definition ModelGroupInfo_validate ::
  "('o pyval \<Rightarrow> bool option) \<Rightarrow> (string \<Rightarrow> 'o pyval \<Rightarrow> 'o pyval option) \<Rightarrow>
   string \<Rightarrow> 'o pyval \<Rightarrow> 'o pyval option" where
  "ModelGroupInfo_validate lax validate name v =
     (if map_of ModelGroupInfo_type_hints name = Some Ty_bool
      then map_option PyBool (pydantic_bool lax v)
      else validate name v)"

text \<open>
  The loop of lines 588-590: \<^verbatim>\<open>data[field_name] = False\<close> for each field with the
  hint \<^verbatim>\<open>bool\<close> for which \<^verbatim>\<open>data.get(field_name)\<close> is \<open>None\<close>.
\<close>

definition default_bool_field :: "string \<times> py_type \<Rightarrow> 'o pydict \<Rightarrow> 'o pydict" where
  "default_bool_field hint data =
     (case hint of (field_name, field_type) \<Rightarrow>
        if field_type = Ty_bool \<and> py_get data field_name = PyNone
        then data(field_name \<mapsto> PyBool False) else data)"

definition default_bool_fields :: "(string \<times> py_type) list \<Rightarrow> 'o pydict \<Rightarrow> 'o pydict" where
  "default_bool_fields hints data = fold default_bool_field hints data"

text \<open>\<^verbatim>\<open>ModelGroupInfo.__init__(self, **data)\<close>, lines 587-591.\<close>

definition ModelGroupInfo_init ::
  "('o pyval \<Rightarrow> bool option) \<Rightarrow> (string \<Rightarrow> 'o pyval \<Rightarrow> 'o pyval option) \<Rightarrow> 'o pydict \<Rightarrow>
   py_error + 'o pydict" where
  "ModelGroupInfo_init lax validate data =
     pydantic_init False ModelGroupInfo_fields (ModelGroupInfo_validate lax validate)
       (default_bool_fields ModelGroupInfo_type_hints data)"

text \<open>Keywords for a worked example: one flag given as \<open>None\<close>, one given, four omitted.\<close>

definition example_group_data :: "unit pydict" where
  "example_group_data =
     [''model_group'' \<mapsto> PyStr ''gpt-4'', ''providers'' \<mapsto> PyList [PyStr ''azure''],
      ''supports_vision'' \<mapsto> PyNone, ''supports_reasoning'' \<mapsto> PyBool True]"

section \<open>Theorems\<close>

subsection \<open>Routing strategies\<close>

lemmas routing_strategy_defs =
  in_RouterConfig_literal_def in_RoutingStrategy_enum_def RouterConfig_routing_strategy_def
  RoutingStrategy_of_value_def RoutingStrategy_members_def

lemma literal_only_simple_shuffle:
  "in_RouterConfig_literal ''simple-shuffle'' \<and> \<not> in_RoutingStrategy_enum ''simple-shuffle''"
  by (simp add: routing_strategy_defs)

lemma enum_only_strategies:
  "\<not> in_RouterConfig_literal ''cost-based-routing'' \<and>
   \<not> in_RouterConfig_literal ''usage-based-routing-v2'' \<and>
   \<not> in_RouterConfig_literal ''provider-budget-routing''"
  by (simp add: routing_strategy_defs)

text \<open>
  C1. Each of the seven strategies of section 4.4 of the specification is selectable:
  its configuration string is one of the strings of the \<^verbatim>\<open>RouterConfig.routing_strategy\<close>
  literal or the value of a member of the \<^verbatim>\<open>RoutingStrategy\<close> enum. (Neither type
  alone holds all seven: \<open>literal_only_simple_shuffle\<close>, \<open>enum_only_strategies\<close>.)
\<close>

theorem spec_strategy_selectable:
  "in_RouterConfig_literal (spec_strategy_value s) \<or>
   in_RoutingStrategy_enum (spec_strategy_value s)"
  by (cases s) (simp_all add: routing_strategy_defs)

subsection \<open>Fireworks model names\<close>

lemma startswith_accounts_prefixed:
  "startswith (''accounts/fireworks/models/'' @ m) ''accounts/''"
  by (simp add: startswith_def)

lemma fireworks_model_name_startswith:
  "startswith (fireworks_model_name m) ''accounts/''"
  using startswith_accounts_prefixed by (simp add: fireworks_model_name_def)

lemma fireworks_model_name_idem:
  "fireworks_model_name (fireworks_model_name m) = fireworks_model_name m"
  using fireworks_model_name_startswith [of m]
  by (simp add: fireworks_model_name_def [of "fireworks_model_name m"])

text \<open>
  C10. The normalization of the model name in \<^verbatim>\<open>transform_request\<close> prefixes the name
  with \<^verbatim>\<open>accounts/fireworks/models/\<close> exactly when it does not start with
  \<^verbatim>\<open>accounts/\<close> and leaves it unchanged otherwise; applying it twice is applying it
  once, and \<^verbatim>\<open>transform_request\<close> builds the same request from a name and from its
  normalization.
\<close>

theorem fireworks_model_name_idempotent:
  "fireworks_model_name m =
     (if startswith m ''accounts/'' then m else ''accounts/fireworks/models/'' @ m) \<and>
   fireworks_model_name (fireworks_model_name m) = fireworks_model_name m \<and>
   transform_request mh tt base (fireworks_model_name m) msgs opt lp hdrs =
     transform_request mh tt base m msgs opt lp hdrs"
  by (simp add: transform_request_def fireworks_model_name_idem)
     (simp add: fireworks_model_name_def)

subsection \<open>Cache keys of the usage counters\<close>

lemma str_format_missing_bucket:
  "str_format (RouterCacheEnum_value TPM) [''id'' \<mapsto> i, ''model'' \<mapsto> m, ''current_day'' \<mapsto> d] =
     Inl (KeyError ''current_minute'')"
  by (simp add: str_format_def)

text \<open>
  C3. For every router id, model and bucket, the key made from the template of each of
  the four window kinds is \<^verbatim>\<open>{scope}:{router_id}:{model}:{window_kind}:{window_bucket}\<close>
  with the scope \<^verbatim>\<open>global_router\<close>; the bucket is the argument \<^verbatim>\<open>current_minute\<close>
  for tpm and rpm and the argument \<^verbatim>\<open>current_day\<close> for tpd and rpd.
\<close>

theorem usage_cache_key_scheme:
  "str_format (RouterCacheEnum_value TPM)
       [''id'' \<mapsto> i, ''model'' \<mapsto> m, ''current_minute'' \<mapsto> current_minute] =
     Inr (usage_key_scheme ''global_router'' i m ''tpm'' current_minute) \<and>
   str_format (RouterCacheEnum_value RPM)
       [''id'' \<mapsto> i, ''model'' \<mapsto> m, ''current_minute'' \<mapsto> current_minute] =
     Inr (usage_key_scheme ''global_router'' i m ''rpm'' current_minute) \<and>
   str_format (RouterCacheEnum_value TPD)
       [''id'' \<mapsto> i, ''model'' \<mapsto> m, ''current_day'' \<mapsto> current_day] =
     Inr (usage_key_scheme ''global_router'' i m ''tpd'' current_day) \<and>
   str_format (RouterCacheEnum_value RPD)
       [''id'' \<mapsto> i, ''model'' \<mapsto> m, ''current_day'' \<mapsto> current_day] =
     Inr (usage_key_scheme ''global_router'' i m ''rpd'' current_day)"
  by (simp add: str_format_def usage_key_scheme_def)

subsection \<open>Active tasks\<close>

lemma sum_counter_incr:
  "sum_list (map snd (counter_incr c k)) = Suc (sum_list (map snd c))"
  by (induction c k rule: counter_incr.induct) auto

lemma sum_count_tasks:
  "sum_list (map snd (count_tasks idx ts c)) =
     sum_list (map snd c) + min (length ts) (MAX_TASKS_TO_CHECK - idx)"
  by (induction ts arbitrary: idx c) (auto simp: sum_counter_incr)

text \<open>
  C5. For every set of tasks, the counts of \<^verbatim>\<open>by_name\<close> add up to the number of active
  (not done) tasks or to 5000, whichever is less, and \<^verbatim>\<open>total_active_tasks\<close> is the
  number of all active tasks.
\<close>

theorem active_tasks_stats_cap:
  "sum_list (map snd (by_name (get_active_tasks_stats all_tasks))) =
     min (length (filter (\<lambda>t. \<not> task_done t) all_tasks)) 5000 \<and>
   total_active_tasks (get_active_tasks_stats all_tasks) =
     length (filter (\<lambda>t. \<not> task_done t) all_tasks)"
  by (simp add: get_active_tasks_stats_def sum_count_tasks MAX_TASKS_TO_CHECK_def Let_def)

subsection \<open>Retry and allowed-fails policies\<close>

lemmas policy_defs =
  policy_init_def policy_getattr_def fields_of_kind_def policy_field_def kind_setting_def
  kind_kwargs_def startswith_def

lemma RetryPolicy_field_table:
  "policy_field RetryPolicy_fields k =
     (case k of
        BadRequest \<Rightarrow> Some ''BadRequestErrorRetries''
      | Authentication \<Rightarrow> Some ''AuthenticationErrorRetries''
      | Timeout \<Rightarrow> Some ''TimeoutErrorRetries''
      | RateLimit \<Rightarrow> Some ''RateLimitErrorRetries''
      | ContentPolicyViolation \<Rightarrow> Some ''ContentPolicyViolationErrorRetries''
      | InternalServerError \<Rightarrow> Some ''InternalServerErrorRetries''
      | Other \<Rightarrow> None)"
  by (cases k) (simp_all add: policy_defs RetryPolicy_fields_def)

lemma AllowedFailsPolicy_field_table:
  "policy_field AllowedFailsPolicy_fields k =
     (case k of
        BadRequest \<Rightarrow> Some ''BadRequestErrorAllowedFails''
      | Authentication \<Rightarrow> Some ''AuthenticationErrorAllowedFails''
      | Timeout \<Rightarrow> Some ''TimeoutErrorAllowedFails''
      | RateLimit \<Rightarrow> Some ''RateLimitErrorAllowedFails''
      | ContentPolicyViolation \<Rightarrow> Some ''ContentPolicyViolationErrorAllowedFails''
      | InternalServerError \<Rightarrow> Some ''InternalServerErrorAllowedFails''
      | Other \<Rightarrow> None)"
  by (cases k) (simp_all add: policy_defs AllowedFailsPolicy_fields_def)

lemma one_field_per_named_kind:
  "k \<noteq> Other \<Longrightarrow>
   length (fields_of_kind RetryPolicy_fields k) = 1 \<and>
   length (fields_of_kind AllowedFailsPolicy_fields k) = 1"
  by (cases k)
     (simp_all add: fields_of_kind_def startswith_def RetryPolicy_fields_def
        AllowedFailsPolicy_fields_def)

lemma RetryPolicy_kind_setting:
  "k \<noteq> Other \<Longrightarrow> k' \<noteq> Other \<Longrightarrow>
   kind_setting RetryPolicy_fields
     (policy_init RetryPolicy_fields (kind_kwargs RetryPolicy_fields k v)) k' =
     Some (if k' = k then v else None)"
  unfolding kind_setting_def kind_kwargs_def RetryPolicy_field_table
  by (cases k; cases k') (simp_all add: policy_init_def policy_getattr_def RetryPolicy_fields_def)

lemma AllowedFailsPolicy_kind_setting:
  "k \<noteq> Other \<Longrightarrow> k' \<noteq> Other \<Longrightarrow>
   kind_setting AllowedFailsPolicy_fields
     (policy_init AllowedFailsPolicy_fields (kind_kwargs AllowedFailsPolicy_fields k v)) k' =
     Some (if k' = k then v else None)"
  unfolding kind_setting_def kind_kwargs_def AllowedFailsPolicy_field_table
  by (cases k; cases k')
     (simp_all add: policy_init_def policy_getattr_def AllowedFailsPolicy_fields_def)

lemma policy_default_unset:
  "k \<noteq> Other \<Longrightarrow>
   kind_setting RetryPolicy_fields (policy_init RetryPolicy_fields Map.empty) k = Some None \<and>
   kind_setting AllowedFailsPolicy_fields (policy_init AllowedFailsPolicy_fields Map.empty) k =
     Some None"
  unfolding kind_setting_def RetryPolicy_field_table AllowedFailsPolicy_field_table
  by (cases k)
     (simp_all add: policy_init_def policy_getattr_def RetryPolicy_fields_def
        AllowedFailsPolicy_fields_def)

text \<open>
  C2, as stated, fails for the catch-all kind: neither policy class has a field for
  \<open>Other\<close>, and each class has six fields for the seven kinds of the taxonomy.
\<close>

theorem other_kind_has_no_policy_field:
  "kind_setting RetryPolicy_fields (policy_init RetryPolicy_fields Map.empty) Other = None \<and>
   kind_setting AllowedFailsPolicy_fields (policy_init AllowedFailsPolicy_fields Map.empty) Other =
     None \<and>
   fields_of_kind RetryPolicy_fields Other = [] \<and>
   fields_of_kind AllowedFailsPolicy_fields Other = [] \<and>
   length RetryPolicy_fields = 6 \<and> length AllowedFailsPolicy_fields = 6"
  by (simp add: policy_defs RetryPolicy_fields_def AllowedFailsPolicy_fields_def)

text \<open>
  C2, amended. For each of the six named kinds (every kind but the catch-all) the retry
  policy and the allowed-fails policy each have a field of their own: it is unset
  (\<open>None\<close>) in a policy built with no arguments, and configuring the field of one kind
  sets that kind and leaves the field of every other named kind unset.
\<close>

theorem named_kinds_independently_configurable:
  assumes "k \<noteq> Other" and "k' \<noteq> Other"
  shows
    "kind_setting RetryPolicy_fields (policy_init RetryPolicy_fields Map.empty) k = Some None \<and>
     kind_setting AllowedFailsPolicy_fields (policy_init AllowedFailsPolicy_fields Map.empty) k =
       Some None \<and>
     kind_setting RetryPolicy_fields
       (policy_init RetryPolicy_fields (kind_kwargs RetryPolicy_fields k v)) k' =
       Some (if k' = k then v else None) \<and>
     kind_setting AllowedFailsPolicy_fields
       (policy_init AllowedFailsPolicy_fields (kind_kwargs AllowedFailsPolicy_fields k w)) k' =
       Some (if k' = k then w else None)"
  using assms policy_default_unset [of k] RetryPolicy_kind_setting [of k k' v]
    AllowedFailsPolicy_kind_setting [of k k' w]
  by simp

theorem named_kinds_independently_configurable_witness:
  "RateLimit \<noteq> Other \<and> Timeout \<noteq> Other \<and>
   kind_setting RetryPolicy_fields (policy_init RetryPolicy_fields Map.empty) RateLimit =
     Some None \<and>
   kind_setting RetryPolicy_fields
     (policy_init RetryPolicy_fields (kind_kwargs RetryPolicy_fields RateLimit (Some 3)))
     Timeout = Some None \<and>
   kind_setting AllowedFailsPolicy_fields
     (policy_init AllowedFailsPolicy_fields
        (kind_kwargs AllowedFailsPolicy_fields RateLimit (Some 1000)))
     Timeout = Some None"
  using named_kinds_independently_configurable [of RateLimit Timeout "Some 3" "Some 1000"]
  by simp

subsection \<open>The error of an empty candidate set\<close>

lemma RouterRateLimitError_message_contains:
  "sublist ''No deployments available for selected model''
     (err_message (RouterRateLimitError_init st sl model ct pc cl))"
  by (simp add: RouterRateLimitError_init_def sublist_append)

text \<open>
  C4. When the candidate set is empty the selection fails, and the error holds the
  requested model, the cooldown list and the cooldown time it was raised with; its
  message contains "No deployments available for selected model".
\<close>

theorem empty_candidates_error:
  assumes "candidates = []"
  shows
    "\<exists>e. select_deployment str_time str_list strategy model candidates cooldown_time
            enable_pre_call_checks cooldown_list = Inl e \<and>
         err_model e = model \<and>
         err_cooldown_list e = cooldown_list \<and>
         err_cooldown_time e = cooldown_time \<and>
         sublist ''No deployments available for selected model'' (err_message e)"
  using assms RouterRateLimitError_message_contains [of str_time str_list model cooldown_time
      enable_pre_call_checks cooldown_list]
  by (simp add: select_deployment_def) (simp add: RouterRateLimitError_init_def)

theorem empty_candidates_error_witness:
  "\<exists>e. select_deployment (\<lambda>t::nat. ''30'') (\<lambda>l::string list. ''[d1]'') hd ''gpt-4''
          ([]::string list) 30 False [''d1''] = Inl e \<and>
       err_model e = ''gpt-4'' \<and>
       err_cooldown_list e = [''d1''] \<and>
       err_cooldown_time e = 30 \<and>
       sublist ''No deployments available for selected model'' (err_message e)"
  using empty_candidates_error [of "[]::string list" "\<lambda>t::nat. ''30''"
      "\<lambda>l::string list. ''[d1]''" hd "''gpt-4''" 30 False "[''d1'']"]
  by simp

subsection \<open>Malformed responses\<close>

lemma transform_response_unparsed:
  "json raw_response = Inl e \<Longrightarrow>
   transform_response json grh mri pf rftn raw_response tools uuids =
     Inl (Raise_FireworksAIException
           \<lparr>exc_message =
              ''Unable to get json response - '' @ e @ '', Original Response: '' @
              resp_text raw_response,
            exc_status_code = resp_status_code raw_response,
            exc_headers = Some (resp_headers raw_response)\<rparr>)"
  by (simp add: transform_response_def)

lemma transform_response_parsed:
  "json raw_response = Inr j \<Longrightarrow>
   (case transform_response json grh mri pf rftn raw_response tools uuids of
      Inl err \<Rightarrow> (\<exists>x. mri j = Inl x \<and> err = Raise_other x)
    | Inr (r, u) \<Rightarrow> (\<exists>response. mri j = Inr response))"
  by (simp add: transform_response_def Let_def split: sum.splits prod.splits)

text \<open>
  C6. When the body of the raw response cannot be parsed, \<^verbatim>\<open>transform_response\<close>
  raises a \<^verbatim>\<open>FireworksAIException\<close> with the status code of the response and a
  message that ends with its text, and returns no \<^verbatim>\<open>ModelResponse\<close>. When the body
  parses, no \<^verbatim>\<open>FireworksAIException\<close> is raised: the call returns a response, or fails
  with the exception of the \<^verbatim>\<open>ModelResponse\<close> constructor.
\<close>

theorem unparsable_response_raises:
  "(json raw_response = Inl e \<longrightarrow>
      transform_response json grh mri pf rftn raw_response tools uuids =
        Inl (Raise_FireworksAIException
              \<lparr>exc_message =
                 ''Unable to get json response - '' @ e @ '', Original Response: '' @
                 resp_text raw_response,
               exc_status_code = resp_status_code raw_response,
               exc_headers = Some (resp_headers raw_response)\<rparr>)) \<and>
   (json raw_response = Inr j \<longrightarrow>
      (case transform_response json grh mri pf rftn raw_response tools uuids of
         Inl err \<Rightarrow>
           \<not> is_FireworksAIException err \<and> (\<exists>x. mri j = Inl x \<and> err = Raise_other x)
       | Inr (r, u) \<Rightarrow> (\<exists>response. mri j = Inr response)))"
  using transform_response_unparsed
      [where json = json and raw_response = raw_response and e = e and grh = grh
         and mri = mri and pf = pf and rftn = rftn and tools = tools and uuids = uuids]
    transform_response_parsed
      [where json = json and raw_response = raw_response and j = j and grh = grh
         and mri = mri and pf = pf and rftn = rftn and tools = tools and uuids = uuids]
  by (auto split: sum.splits)

theorem unparsable_response_raises_witness:
  "transform_response
     (\<lambda>r. if resp_text r = ''{}'' then Inr () else Inl ''Expecting value'')
     id (\<lambda>j. Inr \<lparr>mr_model = Some ''m'', mr_choices = [], mr_hidden_params = []\<rparr>)
     (\<lambda>s. None) ''json_tool_call''
     \<lparr>resp_text = ''<html>'', resp_status_code = 502, resp_headers = []\<rparr> None
     (sconst ''u'') =
     Inl (Raise_FireworksAIException
           \<lparr>exc_message =
              ''Unable to get json response - Expecting value, Original Response: <html>'',
            exc_status_code = 502,
            exc_headers = Some []\<rparr>) \<and>
   \<not> isl (transform_response
     (\<lambda>r. if resp_text r = ''{}'' then Inr () else Inl ''Expecting value'')
     id (\<lambda>j. Inr \<lparr>mr_model = Some ''m'', mr_choices = [], mr_hidden_params = []\<rparr>)
     (\<lambda>s. None) ''json_tool_call''
     \<lparr>resp_text = ''{}'', resp_status_code = 200, resp_headers = []\<rparr> None
     (sconst ''u''))"
  using unparsable_response_raises
      [where json = "\<lambda>r. if resp_text r = ''{}'' then Inr () else Inl ''Expecting value''"
         and raw_response = "\<lparr>resp_text = ''<html>'', resp_status_code = 502, resp_headers = []\<rparr>"
         and e = "''Expecting value''" and j = "()" and grh = id
         and mri = "\<lambda>j. Inr \<lparr>mr_model = Some ''m'', mr_choices = [], mr_hidden_params = []\<rparr>"
         and pf = "\<lambda>s. None" and rftn = "''json_tool_call''" and tools = None
         and uuids = "sconst ''u''"]
    unparsable_response_raises
      [where json = "\<lambda>r. if resp_text r = ''{}'' then Inr () else Inl ''Expecting value''"
         and raw_response = "\<lparr>resp_text = ''{}'', resp_status_code = 200, resp_headers = []\<rparr>"
         and e = "''Expecting value''" and j = "()" and grh = id
         and mri = "\<lambda>j. Inr \<lparr>mr_model = Some ''m'', mr_choices = [], mr_hidden_params = []\<rparr>"
         and pf = "\<lambda>s. None" and rftn = "''json_tool_call''" and tools = None
         and uuids = "sconst ''u''"]
  by (auto split: sum.splits)

subsection \<open>ModelInfo\<close>

lemmas ModelInfo_init_defs =
  ModelInfo_init_def validate_id_def pydantic_init_def field_invalid_def ModelInfo_fields_def
  accept_all_def








subsection \<open>Deployment\<close>

lemma fold_setattr_attrs:
  "mi_attrs (fold (\<lambda>key mi. let field = ga key
                     in if field \<noteq> PyNone then ModelInfo_setattr mi key field else mi)
               keys mi) key =
     (if key \<in> set keys \<and> ga key \<noteq> PyNone then Some (ga key)
      else mi_attrs mi key)"
  by (induction keys arbitrary: mi) (auto simp: ModelInfo_setattr_def Let_def)

lemma fold_setattr_id:
  "mi_id (fold (\<lambda>key mi. let field = ga key
                  in if field \<noteq> PyNone then ModelInfo_setattr mi key field else mi)
            keys mi) = mi_id mi"
  by (induction keys arbitrary: mi) (auto simp: ModelInfo_setattr_def Let_def)

lemma copy_special_params_attrs:
  "mi_attrs (copy_special_params lp mi) key =
     (if key \<in> set SPECIAL_MODEL_INFO_PARAMS \<and> litellm_params_getattr lp key \<noteq> PyNone
      then Some (litellm_params_getattr lp key) else mi_attrs mi key)"
  unfolding copy_special_params_def by (rule fold_setattr_attrs)

lemma copy_special_params_id: "mi_id (copy_special_params lp mi) = mi_id mi"
  unfolding copy_special_params_def by (rule fold_setattr_id)

lemma pydantic_init_extra:
  "pydantic_init True decls validate kwargs = Inr attrs \<Longrightarrow> map_of decls key = None \<Longrightarrow>
   attrs key = kwargs key"
  by (auto simp: pydantic_init_def split: option.splits prod.splits)

lemma special_cases:
  "key \<in> set SPECIAL_MODEL_INFO_PARAMS \<Longrightarrow>
   key = ''input_cost_per_token'' \<or> key = ''output_cost_per_token'' \<or>
   key = ''input_cost_per_character'' \<or> key = ''output_cost_per_character''"
  by (simp add: SPECIAL_MODEL_INFO_PARAMS_def)

lemma special_not_declared:
  assumes "key \<in> set SPECIAL_MODEL_INFO_PARAMS"
  shows "map_of (ModelInfo_fields :: 'o field_decls) key = None \<and> key \<noteq> ''id''"
  using special_cases [OF assms] by (elim disjE) (simp_all add: ModelInfo_fields_def)

lemma ModelInfo_init_attrs:
  "ModelInfo_init validate id0 params uuids = (Inr (mi :: 'o ModelInfo), uuids') \<Longrightarrow>
   pydantic_init True ModelInfo_fields validate params = Inr (mi_attrs mi)"
  by (auto simp: ModelInfo_init_def split: sum.splits option.splits prod.splits)

lemma ModelInfo_init_extra:
  assumes "ModelInfo_init validate id0 params uuids = (Inr (mi :: 'o ModelInfo), uuids')"
    and "map_of (ModelInfo_fields :: 'o field_decls) key = None"
  shows "mi_attrs mi key = params key"
  using pydantic_init_extra [OF ModelInfo_init_attrs [OF assms(1)] assms(2)] .

lemma resolve_model_info_given:
  assumes "resolve_model_info validate model_info uuids = (Inr (mi :: 'o ModelInfo), uuids')"
    and "key \<in> set SPECIAL_MODEL_INFO_PARAMS"
  shows "mi_attrs mi key = given_model_info_field model_info key"
proof -
  have nd: "map_of (ModelInfo_fields :: 'o field_decls) key = None" and ni: "key \<noteq> ''id''"
    using special_not_declared [OF assms(2), where 'o = 'o] by simp_all
  show ?thesis
  proof (cases model_info)
    case ModelInfo_absent
    with assms(1) have "ModelInfo_init validate PyNone Map.empty uuids = (Inr mi, uuids')"
      by (simp add: resolve_model_info_def)
    from ModelInfo_init_extra [OF this nd] show ?thesis
      by (simp add: given_model_info_field_def ModelInfo_absent)
  next
    case (ModelInfo_dict d)
    with assms(1) have
      "ModelInfo_init validate (py_get d ''id'') (d(''id'' := None)) uuids = (Inr mi, uuids')"
      by (simp add: resolve_model_info_def)
    from ModelInfo_init_extra [OF this nd] show ?thesis
      using ni by (simp add: given_model_info_field_def ModelInfo_dict)
  next
    case (ModelInfo_object m)
    with assms(1) show ?thesis
      by (simp add: resolve_model_info_def given_model_info_field_def)
  qed
qed

lemma Deployment_init_model_info:
  assumes "Deployment_init validate to_params model_name litellm_params model_info params
             uuids = (Inr d, uuids')"
  shows "\<exists>mi. resolve_model_info validate model_info uuids = (Inr mi, uuids') \<and>
              dep_model_info d = copy_special_params litellm_params mi"
  using assms
  by (cases litellm_params)
     (auto simp: Deployment_init_def Let_def split: prod.splits sum.splits)

lemma dict_params_not_copied:
  assumes "Deployment_init validate to_params model_name (LiteLLM_Params_dict lp) model_info
             params uuids = (Inr d, uuids')"
    and "key \<in> set SPECIAL_MODEL_INFO_PARAMS"
  shows "mi_attrs (dep_model_info d) key = given_model_info_field model_info key"
proof -
  from Deployment_init_model_info [OF assms(1)] obtain mi where
    r: "resolve_model_info validate model_info uuids = (Inr mi, uuids')" and
    d: "dep_model_info d = copy_special_params (LiteLLM_Params_dict lp) mi"
    by blast
  show ?thesis
    using resolve_model_info_given [OF r assms(2)]
    by (simp add: d copy_special_params_attrs litellm_params_getattr_def)
qed

text \<open>
  C8, as stated, fails for parameters given as a dictionary: the price is set in the
  dictionary, the deployment is constructed with that price on its parameters, and its
  model info has no attribute of that name.
\<close>

theorem dict_litellm_params_not_copied:
  "py_get example_litellm_params ''input_cost_per_token'' = PyObj ''2e-06'' \<and>
   \<not> isl (fst (Deployment_init accept_all Inr ''gpt-4''
                  (LiteLLM_Params_dict example_litellm_params) ModelInfo_absent Map.empty
                  example_uuids)) \<and>
   py_get (dep_litellm_params (projr (fst (Deployment_init accept_all Inr ''gpt-4''
             (LiteLLM_Params_dict example_litellm_params) ModelInfo_absent Map.empty
             example_uuids)))) ''input_cost_per_token'' = PyObj ''2e-06'' \<and>
   mi_attrs (dep_model_info (projr (fst (Deployment_init accept_all Inr ''gpt-4''
               (LiteLLM_Params_dict example_litellm_params) ModelInfo_absent Map.empty
               example_uuids)))) ''input_cost_per_token'' = None"
proof -
  let ?x = "Deployment_init accept_all Inr ''gpt-4''
              (LiteLLM_Params_dict example_litellm_params) ModelInfo_absent Map.empty
              example_uuids"
  have x: "?x = (Inr (projr (fst ?x)), snd ?x)"
    by (simp add: Deployment_init_def resolve_model_info_def ModelInfo_init_defs Let_def)
  have p: "dep_litellm_params (projr (fst ?x)) = example_litellm_params"
    by (simp add: Deployment_init_def resolve_model_info_def ModelInfo_init_defs Let_def)
  have k: "''input_cost_per_token'' \<in> set SPECIAL_MODEL_INFO_PARAMS"
    by (simp add: SPECIAL_MODEL_INFO_PARAMS_def)
  have v: "py_get example_litellm_params ''input_cost_per_token'' = PyObj ''2e-06''"
    by (simp add: py_get_def example_litellm_params_def)
  have i: "\<not> isl (fst ?x)"
    by (subst x) simp
  from dict_params_not_copied [OF x k] have
    "mi_attrs (dep_model_info (projr (fst ?x))) ''input_cost_per_token'' = None"
    by (simp add: given_model_info_field_def)
  with v i p show ?thesis by simp
qed

text \<open>
  C8, amended. In every deployment constructed from parameters given as a
  \<^verbatim>\<open>LiteLLM_Params\<close> object, each of the four special pricing parameters that is set
  (not \<open>None\<close>) on the parameters is the attribute of that name of the deployment's model
  info; for one that is \<open>None\<close> or absent on the parameters, the attribute of the model
  info is as the caller gave it (absent when no model info, or no such key or attribute,
  was given).
\<close>

theorem special_params_copied:
  assumes "Deployment_init validate to_params model_name (LiteLLM_Params_object litellm_params)
             model_info params uuids = (Inr d, uuids')"
    and "key \<in> set SPECIAL_MODEL_INFO_PARAMS"
  shows "mi_attrs (dep_model_info d) key =
     (if py_get litellm_params key \<noteq> PyNone then Some (py_get litellm_params key)
      else given_model_info_field model_info key)"
proof -
  from Deployment_init_model_info [OF assms(1)] obtain mi where
    r: "resolve_model_info validate model_info uuids = (Inr mi, uuids')" and
    d: "dep_model_info d = copy_special_params (LiteLLM_Params_object litellm_params) mi"
    by blast
  show ?thesis
    using resolve_model_info_given [OF r assms(2)] assms(2)
    by (simp add: d copy_special_params_attrs litellm_params_getattr_def)
qed

theorem special_params_copied_witness:
  "mi_attrs (dep_model_info (projr (fst (Deployment_init accept_all Inr ''gpt-4''
      (LiteLLM_Params_object example_litellm_params) example_model_info Map.empty
      example_uuids))))
     ''input_cost_per_token'' = Some (PyObj ''2e-06'') \<and>
   mi_attrs (dep_model_info (projr (fst (Deployment_init accept_all Inr ''gpt-4''
      (LiteLLM_Params_object example_litellm_params) example_model_info Map.empty
      example_uuids))))
     ''output_cost_per_token'' = Some (PyObj ''6e-06'')"
proof -
  let ?x = "Deployment_init accept_all Inr ''gpt-4''
              (LiteLLM_Params_object example_litellm_params) example_model_info Map.empty
              example_uuids"
  have x: "?x = (Inr (projr (fst ?x)), snd ?x)"
    by (simp add: Deployment_init_def resolve_model_info_def example_model_info_def
        ModelInfo_init_defs py_get_def Let_def)
  have k: "''input_cost_per_token'' \<in> set SPECIAL_MODEL_INFO_PARAMS"
    "''output_cost_per_token'' \<in> set SPECIAL_MODEL_INFO_PARAMS"
    by (simp_all add: SPECIAL_MODEL_INFO_PARAMS_def)
  from special_params_copied [OF x k(1)] special_params_copied [OF x k(2)]
  show ?thesis
    by (simp add: py_get_def example_litellm_params_def example_model_info_def
        given_model_info_field_def)
qed

subsection \<open>ModelGroupInfo\<close>

lemma default_bool_field_apply:
  "default_bool_field (n, t) data name =
     (if name = n \<and> t = Ty_bool \<and> py_get data n = PyNone then Some (PyBool False)
      else data name)"
  by (simp add: default_bool_field_def)

lemma py_get_default_bool_field:
  "(py_get (default_bool_field (n, t) data) name = PyNone) =
     (py_get data name = PyNone \<and> \<not> (name = n \<and> t = Ty_bool))"
  by (auto simp: default_bool_field_def py_get_def)

lemma default_bool_fields_apply:
  "default_bool_fields hints data name =
     (if (name, Ty_bool) \<in> set hints \<and> py_get data name = PyNone then Some (PyBool False)
      else data name)"
  unfolding default_bool_fields_def
proof (induction hints arbitrary: data)
  case Nil
  show ?case by simp
next
  case (Cons h hs)
  obtain n t where h: "h = (n, t)" by (cases h)
  show ?case
    by (simp add: h Cons.IH py_get_default_bool_field)
       (auto simp: default_bool_field_apply)
qed

lemma bool_field_cases:
  "(name, Ty_bool) \<in> set ModelGroupInfo_type_hints \<Longrightarrow>
   name = ''supports_parallel_function_calling'' \<or> name = ''supports_vision'' \<or>
   name = ''supports_web_search'' \<or> name = ''supports_url_context'' \<or>
   name = ''supports_reasoning'' \<or> name = ''supports_function_calling''"
  by (simp add: ModelGroupInfo_type_hints_def)

lemma bool_field_decl:
  assumes "(name, Ty_bool) \<in> set ModelGroupInfo_type_hints"
  shows "map_of (ModelGroupInfo_fields :: 'o field_decls) name = Some (Some (PyBool False)) \<and>
         map_of ModelGroupInfo_type_hints name = Some Ty_bool"
  using bool_field_cases [OF assms]
  by (elim disjE) (simp_all add: ModelGroupInfo_fields_def ModelGroupInfo_type_hints_def)

lemma distinct_ModelGroupInfo_fields:
  "distinct (map fst (ModelGroupInfo_fields :: 'o field_decls))"
  by (simp add: ModelGroupInfo_fields_def)

lemma ModelGroupInfo_init_value:
  assumes "ModelGroupInfo_init lax validate (data :: 'o pydict) = Inr g"
    and "(name, Ty_bool) \<in> set ModelGroupInfo_type_hints"
  shows "g name =
     (case default_bool_fields ModelGroupInfo_type_hints data name of
        None \<Rightarrow> Some (PyBool False)
      | Some v \<Rightarrow> map_option PyBool (pydantic_bool lax v))"
  using assms(1) bool_field_decl [OF assms(2), where 'o = 'o]
  by (auto simp: ModelGroupInfo_init_def pydantic_init_def ModelGroupInfo_validate_def
      split: option.splits prod.splits)

lemma bool_field_valid:
  assumes "(name, Ty_bool) \<in> set ModelGroupInfo_type_hints"
    and "py_get (data :: 'o pydict) name = PyNone"
  shows "\<not> field_invalid (ModelGroupInfo_validate lax validate)
           (default_bool_fields ModelGroupInfo_type_hints data) (name, Some (PyBool False))"
  using bool_field_decl [OF assms(1), where 'o = 'o] assms
  by (auto simp: field_invalid_def default_bool_fields_apply ModelGroupInfo_validate_def
      pydantic_bool_def)

lemma find_SomeD: "find P xs = Some x \<Longrightarrow> x \<in> set xs \<and> P x"
  by (induction xs) (auto split: if_splits)

lemma pydantic_init_error:
  assumes "pydantic_init ea decls validate kwargs = Inl (ValidationError name)"
  shows "\<exists>dflt. (name, dflt) \<in> set decls \<and> field_invalid validate kwargs (name, dflt)"
proof -
  from assms obtain dflt where "find (field_invalid validate kwargs) decls = Some (name, dflt)"
    by (auto simp: pydantic_init_def split: option.splits prod.splits)
  from find_SomeD [OF this] show ?thesis by blast
qed

lemma ModelGroupInfo_init_no_error:
  assumes "(name, Ty_bool) \<in> set ModelGroupInfo_type_hints"
    and "py_get data name = PyNone"
  shows "ModelGroupInfo_init lax validate (data :: 'o pydict) \<noteq> Inl (ValidationError name)"
proof
  assume "ModelGroupInfo_init lax validate data = Inl (ValidationError name)"
  then obtain dflt where
    m: "(name, dflt) \<in> set (ModelGroupInfo_fields :: 'o field_decls)" and
    i: "field_invalid (ModelGroupInfo_validate lax validate)
          (default_bool_fields ModelGroupInfo_type_hints data) (name, dflt)"
    unfolding ModelGroupInfo_init_def by (blast dest: pydantic_init_error)
  from map_of_is_SomeI [OF distinct_ModelGroupInfo_fields m]
    bool_field_decl [OF assms(1), where 'o = 'o]
  have "dflt = Some (PyBool False)" by simp
  with i bool_field_valid [OF assms, of lax validate] show False by simp
qed

lemma ModelGroupInfo_flag_bool:
  assumes "ModelGroupInfo_init lax validate (data :: 'o pydict) = Inr g"
    and "(name, Ty_bool) \<in> set ModelGroupInfo_type_hints"
  shows "\<exists>b. g name = Some (PyBool b)"
proof -
  have d: "map_of (ModelGroupInfo_fields :: 'o field_decls) name = Some (Some (PyBool False))"
    using bool_field_decl [OF assms(2), where 'o = 'o] by simp
  then have m: "(name, Some (PyBool False)) \<in> set (ModelGroupInfo_fields :: 'o field_decls)"
    by (rule map_of_SomeD)
  from assms(1) have
    "find (field_invalid (ModelGroupInfo_validate lax validate)
             (default_bool_fields ModelGroupInfo_type_hints data))
       (ModelGroupInfo_fields :: 'o field_decls) = None"
    by (auto simp: ModelGroupInfo_init_def pydantic_init_def split: option.splits prod.splits)
  with m have v: "\<not> field_invalid (ModelGroupInfo_validate lax validate)
           (default_bool_fields ModelGroupInfo_type_hints data) (name, Some (PyBool False))"
    by (auto simp: find_None_iff)
  show ?thesis
    using v bool_field_decl [OF assms(2), where 'o = 'o]
    by (auto simp: ModelGroupInfo_init_value [OF assms] field_invalid_def
        ModelGroupInfo_validate_def split: option.splits)
qed

lemma ModelGroupInfo_flag_False:
  assumes "ModelGroupInfo_init lax validate (data :: 'o pydict) = Inr g"
    and "(name, Ty_bool) \<in> set ModelGroupInfo_type_hints"
    and "py_get data name = PyNone"
  shows "g name = Some (PyBool False)"
  using assms(2,3)
  by (simp add: ModelGroupInfo_init_value [OF assms(1,2)] default_bool_fields_apply
      pydantic_bool_def)

lemma bool_fields_are_the_flags:
  "map fst (filter (\<lambda>(field_name, field_type). field_type = Ty_bool)
              ModelGroupInfo_type_hints) =
     [''supports_parallel_function_calling'', ''supports_vision'', ''supports_web_search'',
      ''supports_url_context'', ''supports_reasoning'', ''supports_function_calling'']"
  by (simp add: ModelGroupInfo_type_hints_def)

lemma example_group_constructed:
  "ModelGroupInfo_init (\<lambda>v. None) accept_all example_group_data =
     Inr (projr (ModelGroupInfo_init (\<lambda>v. None) accept_all example_group_data))"
  by (simp add: ModelGroupInfo_init_def pydantic_init_def field_invalid_def
      ModelGroupInfo_fields_def default_bool_fields_apply ModelGroupInfo_validate_def
      ModelGroupInfo_type_hints_def example_group_data_def accept_all_def py_get_def
      pydantic_bool_def)

text \<open>
  C9. For every field of \<^verbatim>\<open>ModelGroupInfo\<close> declared as \<^verbatim>\<open>bool\<close> (the six capability
  flags, \<open>bool_fields_are_the_flags\<close>) and every keyword dictionary: when the flag is
  given as \<open>None\<close> or omitted, the construction does not fail on that flag, and in the
  constructed value the flag is \<open>False\<close>; in every constructed value the flag is a bool.
\<close>

theorem ModelGroupInfo_flags_definite:
  assumes "(name, Ty_bool) \<in> set ModelGroupInfo_type_hints"
  shows
    "(py_get data name = PyNone \<longrightarrow>
        ModelGroupInfo_init lax validate (data :: 'o pydict) \<noteq> Inl (ValidationError name)) \<and>
     (ModelGroupInfo_init lax validate data = Inr g \<longrightarrow>
        (\<exists>b. g name = Some (PyBool b)) \<and>
        (py_get data name = PyNone \<longrightarrow> g name = Some (PyBool False)))"
  using ModelGroupInfo_init_no_error [OF assms, of data lax validate]
    ModelGroupInfo_flag_bool [OF _ assms, of lax validate data g]
    ModelGroupInfo_flag_False [OF _ assms, of lax validate data g]
  by blast

theorem ModelGroupInfo_flags_definite_witness:
  "(''supports_vision'', Ty_bool) \<in> set ModelGroupInfo_type_hints \<and>
   py_get example_group_data ''supports_vision'' = PyNone \<and>
   ModelGroupInfo_init (\<lambda>v. None) accept_all example_group_data \<noteq>
     Inl (ValidationError ''supports_vision'') \<and>
   projr (ModelGroupInfo_init (\<lambda>v. None) accept_all example_group_data) ''supports_vision'' =
     Some (PyBool False)"
proof -
  have k: "(''supports_vision'', Ty_bool) \<in> set ModelGroupInfo_type_hints"
    by (simp add: ModelGroupInfo_type_hints_def)
  have n: "py_get example_group_data ''supports_vision'' = PyNone"
    by (simp add: py_get_def example_group_data_def)
  from ModelGroupInfo_flags_definite
      [OF k, where data = example_group_data and lax = "\<lambda>v. None" and validate = accept_all
         and g = "projr (ModelGroupInfo_init (\<lambda>v. None) accept_all example_group_data)"]
    example_group_constructed k n
  show ?thesis by simp
qed

end
